theory Spec2Isabelle
  imports Main "HOL-Library.Word"
begin

text \<open>
  A model of the todo list of \<open>src/todo.ts\<close>: the store in \<open>tasks.json\<close>, the
  reminders, the commands \<open>add\<close>, \<open>list\<close> and \<open>remove\<close>, and the command line in its
  one-shot and interactive modes. (The repository also holds an earlier variant
  whose tasks are plain strings; it is not the subject here.) The file system is
  the content of the one file; the date parsing library, \<open>Date\<close> and the clock are
  parameters; a timer is recorded when it is set, and its firing is not modelled.
\<close>

section \<open>JavaScript strings\<close>

text \<open>
  A JavaScript string is a sequence of 16-bit code units. String literals of the
  program that are plain ASCII are written with \<open>js\<close>; the emoji of the messages
  are written as their UTF-16 code units.
\<close>

type_synonym jsstring = "16 word list"

definition js :: "string \<Rightarrow> jsstring" where
  "js s = map (\<lambda>c. of_nat (of_char c)) s"

text \<open>\<open>Array.prototype.join\<close> on an array of strings.\<close>

fun join :: "jsstring \<Rightarrow> jsstring list \<Rightarrow> jsstring" where
  "join sep [] = []"
| "join sep [x] = x"
| "join sep (x # y # ys) = x @ sep @ join sep (y # ys)"

text \<open>
  \<open>WhiteSpace\<close> and \<open>LineTerminator\<close> code units of ECMAScript, as skipped by
  \<open>parseInt\<close> and stripped by \<open>String.prototype.trim\<close>.
\<close>

definition isStrWhiteSpace :: "16 word \<Rightarrow> bool" where
  "isStrWhiteSpace c \<longleftrightarrow>
     c = 0x09 \<or> c = 0x0A \<or> c = 0x0B \<or> c = 0x0C \<or> c = 0x0D \<or> c = 0x20 \<or> c = 0xA0 \<or>
     c = 0x1680 \<or> (0x2000 \<le> c \<and> c \<le> 0x200A) \<or> c = 0x2028 \<or> c = 0x2029 \<or>
     c = 0x202F \<or> c = 0x205F \<or> c = 0x3000 \<or> c = 0xFEFF"

definition isDigit :: "16 word \<Rightarrow> bool" where
  "isDigit c \<longleftrightarrow> 0x30 \<le> c \<and> c \<le> 0x39"

section \<open>JSON\<close>

text \<open>
  The store is written with \<open>JSON.stringify(tasks, null, 2)\<close> and read with
  \<open>JSON.parse\<close>. Both are modelled on JSON values. A number keeps its literal text:
  no task holds one, and the arithmetic of doubles is not modelled.
\<close>

datatype json =
    JNull
  | JBool bool
  | JNumber jsstring
  | JString jsstring
  | JArray "json list"
  | JObject "(jsstring \<times> json) list"

subsection \<open>JSON.stringify with a two-space gap\<close>

definition hexdigit :: "nat \<Rightarrow> 16 word" where
  "hexdigit n = (if n < 10 then of_nat (48 + n) else of_nat (87 + n))"

text \<open>\<open>UnicodeEscape\<close>: a backslash, \<open>u\<close>, and four lowercase hexadecimal digits.\<close>

definition UnicodeEscape :: "16 word \<Rightarrow> jsstring" where
  "UnicodeEscape c =
     [0x5C, 0x75, hexdigit (unat c div 4096), hexdigit (unat c div 256 mod 16),
      hexdigit (unat c div 16 mod 16), hexdigit (unat c mod 16)]"

definition isLeadingSurrogate :: "16 word \<Rightarrow> bool" where
  "isLeadingSurrogate c \<longleftrightarrow> 0xD800 \<le> c \<and> c \<le> 0xDBFF"

definition isTrailingSurrogate :: "16 word \<Rightarrow> bool" where
  "isTrailingSurrogate c \<longleftrightarrow> 0xDC00 \<le> c \<and> c \<le> 0xDFFF"

text \<open>
  The body of \<open>QuoteJSONString\<close>: the short escapes, \<open>UnicodeEscape\<close> for the other
  control characters and for unpaired surrogates, everything else as it is.
\<close>

fun quoteJSONChars :: "jsstring \<Rightarrow> jsstring" where
  "quoteJSONChars [] = []"
| "quoteJSONChars (c # cs) =
     (if c = 0x08 then [0x5C, 0x62] @ quoteJSONChars cs
      else if c = 0x09 then [0x5C, 0x74] @ quoteJSONChars cs
      else if c = 0x0A then [0x5C, 0x6E] @ quoteJSONChars cs
      else if c = 0x0C then [0x5C, 0x66] @ quoteJSONChars cs
      else if c = 0x0D then [0x5C, 0x72] @ quoteJSONChars cs
      else if c = 0x22 then [0x5C, 0x22] @ quoteJSONChars cs
      else if c = 0x5C then [0x5C, 0x5C] @ quoteJSONChars cs
      else if c < 0x20 then UnicodeEscape c @ quoteJSONChars cs
      else if isLeadingSurrogate c then
        (case cs of
           [] \<Rightarrow> UnicodeEscape c
         | d # ds \<Rightarrow>
             if isTrailingSurrogate d then c # d # quoteJSONChars ds
             else UnicodeEscape c @ quoteJSONChars cs)
      else if isTrailingSurrogate c then UnicodeEscape c @ quoteJSONChars cs
      else c # quoteJSONChars cs)"

definition QuoteJSONString :: "jsstring \<Rightarrow> jsstring" where
  "QuoteJSONString s = [0x22] @ quoteJSONChars s @ [0x22]"

definition gap :: jsstring where
  "gap = js ''  ''"

text \<open>
  \<open>SerializeJSONProperty\<close> at indentation \<open>ind\<close>: an empty array is \<open>[]\<close>, an empty
  object \<open>{}\<close>; otherwise the elements are on lines of their own, one gap deeper, and
  a member is its quoted key, a colon, a space and its value.
\<close>

fun serialize :: "jsstring \<Rightarrow> json \<Rightarrow> jsstring" where
  "serialize ind JNull = js ''null''"
| "serialize ind (JBool b) = (if b then js ''true'' else js ''false'')"
| "serialize ind (JNumber n) = n"
| "serialize ind (JString s) = QuoteJSONString s"
| "serialize ind (JArray vs) =
     (if vs = [] then js ''[]''
      else js ''['' @ [0x0A] @ (ind @ gap) @
           join (js '','' @ [0x0A] @ (ind @ gap)) (map (serialize (ind @ gap)) vs) @
           [0x0A] @ ind @ js '']'')"
| "serialize ind (JObject ms) =
     (if ms = [] then js ''{}''
      else js ''{'' @ [0x0A] @ (ind @ gap) @
           join (js '','' @ [0x0A] @ (ind @ gap))
             (map (\<lambda>m. QuoteJSONString (fst m) @ js '': '' @ serialize (ind @ gap) (snd m)) ms) @
           [0x0A] @ ind @ js ''}'')"

definition JSON_stringify :: "json \<Rightarrow> jsstring" where
  "JSON_stringify v = serialize [] v"

subsection \<open>JSON.parse\<close>

datatype token =
    TLBrack | TRBrack | TLBrace | TRBrace | TComma | TColon
  | TString jsstring
  | TNumber jsstring
  | TLiteral jsstring

datatype lexstate =
    Idle
  | InString jsstring
  | InEscape jsstring
  | InUnicode jsstring nat nat
  | InNumber jsstring
  | InLiteral jsstring

definition isJSONWhiteSpace :: "16 word \<Rightarrow> bool" where
  "isJSONWhiteSpace c \<longleftrightarrow> c = 0x09 \<or> c = 0x0A \<or> c = 0x0D \<or> c = 0x20"

definition hexval :: "16 word \<Rightarrow> nat option" where
  "hexval c =
     (if 0x30 \<le> c \<and> c \<le> 0x39 then Some (unat c - 48)
      else if 0x61 \<le> c \<and> c \<le> 0x66 then Some (unat c - 87)
      else if 0x41 \<le> c \<and> c \<le> 0x46 then Some (unat c - 55)
      else None)"

definition isNumberChar :: "16 word \<Rightarrow> bool" where
  "isNumberChar c \<longleftrightarrow>
     isDigit c \<or> c = 0x2B \<or> c = 0x2D \<or> c = 0x2E \<or> c = 0x65 \<or> c = 0x45"

definition isLiteralChar :: "16 word \<Rightarrow> bool" where
  "isLiteralChar c \<longleftrightarrow> 0x61 \<le> c \<and> c \<le> 0x7A"

text \<open>The JSON number grammar: sign, integer part, fraction, exponent.\<close>

definition validExponent :: "jsstring \<Rightarrow> bool" where
  "validExponent r =
     (case r of
        [] \<Rightarrow> True
      | c # r1 \<Rightarrow>
          (c = 0x65 \<or> c = 0x45) \<and>
          (let r2 = (case r1 of [] \<Rightarrow> [] | s # t \<Rightarrow> if s = 0x2B \<or> s = 0x2D then t else r1)
           in r2 \<noteq> [] \<and> list_all isDigit r2))"

definition validFraction :: "jsstring \<Rightarrow> bool" where
  "validFraction r =
     (case r of
        [] \<Rightarrow> True
      | c # r1 \<Rightarrow>
          if c = 0x2E then takeWhile isDigit r1 \<noteq> [] \<and> validExponent (dropWhile isDigit r1)
          else validExponent r)"

definition validNumber :: "jsstring \<Rightarrow> bool" where
  "validNumber s =
     (let s1 = (case s of [] \<Rightarrow> [] | c # r \<Rightarrow> if c = 0x2D then r else s)
      in case s1 of
           [] \<Rightarrow> False
         | c # r \<Rightarrow>
             if c = 0x30 then validFraction r
             else if isDigit c then validFraction (dropWhile isDigit r)
             else False)"

definition validLiteral :: "jsstring \<Rightarrow> bool" where
  "validLiteral l \<longleftrightarrow> l = js ''true'' \<or> l = js ''false'' \<or> l = js ''null''"

text \<open>What the lexer does with a code unit between two tokens.\<close>

definition idle_step :: "16 word \<Rightarrow> (token list \<times> lexstate) option" where
  "idle_step c =
     (if isJSONWhiteSpace c then Some ([], Idle)
      else if c = 0x5B then Some ([TLBrack], Idle)
      else if c = 0x5D then Some ([TRBrack], Idle)
      else if c = 0x7B then Some ([TLBrace], Idle)
      else if c = 0x7D then Some ([TRBrace], Idle)
      else if c = 0x2C then Some ([TComma], Idle)
      else if c = 0x3A then Some ([TColon], Idle)
      else if c = 0x22 then Some ([], InString [])
      else if c = 0x2D \<or> isDigit c then Some ([], InNumber [c])
      else if isLiteralChar c then Some ([], InLiteral [c])
      else None)"

text \<open>
  One code unit of input: the tokens it completes and the next state, or \<open>None\<close>
  for a syntax error. Inside a string a raw control character is an error; an
  escape is one of the eight short ones or \<open>u\<close> and four hexadecimal digits.
\<close>

fun lex_step :: "lexstate \<Rightarrow> 16 word \<Rightarrow> (token list \<times> lexstate) option" where
  "lex_step Idle c = idle_step c"
| "lex_step (InString acc) c =
     (if c = 0x22 then Some ([TString acc], Idle)
      else if c = 0x5C then Some ([], InEscape acc)
      else if c < 0x20 then None
      else Some ([], InString (acc @ [c])))"
| "lex_step (InEscape acc) c =
     (if c = 0x22 then Some ([], InString (acc @ [0x22]))
      else if c = 0x5C then Some ([], InString (acc @ [0x5C]))
      else if c = 0x2F then Some ([], InString (acc @ [0x2F]))
      else if c = 0x62 then Some ([], InString (acc @ [0x08]))
      else if c = 0x66 then Some ([], InString (acc @ [0x0C]))
      else if c = 0x6E then Some ([], InString (acc @ [0x0A]))
      else if c = 0x72 then Some ([], InString (acc @ [0x0D]))
      else if c = 0x74 then Some ([], InString (acc @ [0x09]))
      else if c = 0x75 then Some ([], InUnicode acc 0 0)
      else None)"
| "lex_step (InUnicode acc k v) c =
     (case hexval c of
        None \<Rightarrow> None
      | Some d \<Rightarrow>
          if k = 3 then Some ([], InString (acc @ [of_nat (16 * v + d)]))
          else Some ([], InUnicode acc (k + 1) (16 * v + d)))"
| "lex_step (InNumber acc) c =
     (if isNumberChar c then Some ([], InNumber (acc @ [c]))
      else if validNumber acc then
        (case idle_step c of
           None \<Rightarrow> None
         | Some (ts, st) \<Rightarrow> Some (TNumber acc # ts, st))
      else None)"
| "lex_step (InLiteral acc) c =
     (if isLiteralChar c then Some ([], InLiteral (acc @ [c]))
      else if validLiteral acc then
        (case idle_step c of
           None \<Rightarrow> None
         | Some (ts, st) \<Rightarrow> Some (TLiteral acc # ts, st))
      else None)"

fun lex_run :: "lexstate \<Rightarrow> jsstring \<Rightarrow> (token list \<times> lexstate) option" where
  "lex_run st [] = Some ([], st)"
| "lex_run st (c # cs) =
     (case lex_step st c of
        None \<Rightarrow> None
      | Some (ts, st1) \<Rightarrow>
          (case lex_run st1 cs of
             None \<Rightarrow> None
           | Some (ts1, st2) \<Rightarrow> Some (ts @ ts1, st2)))"

fun lex_finish :: "lexstate \<Rightarrow> token list option" where
  "lex_finish Idle = Some []"
| "lex_finish (InNumber acc) = (if validNumber acc then Some [TNumber acc] else None)"
| "lex_finish (InLiteral acc) = (if validLiteral acc then Some [TLiteral acc] else None)"
| "lex_finish (InString acc) = None"
| "lex_finish (InEscape acc) = None"
| "lex_finish (InUnicode acc k v) = None"

definition lexer :: "jsstring \<Rightarrow> token list option" where
  "lexer s =
     (case lex_run Idle s of
        None \<Rightarrow> None
      | Some (ts, st) \<Rightarrow>
          (case lex_finish st of None \<Rightarrow> None | Some ts1 \<Rightarrow> Some (ts @ ts1)))"

text \<open>
  The parser is a stack machine over the tokens. A frame is an array or an object
  under construction (elements in reverse; an object frame also holds the key that
  waits for its value).
\<close>

datatype frame =
    ArrayFrame "json list"
  | ObjectFrame "(jsstring \<times> json) list" jsstring

datatype expect = Value | ValueOrEnd | KeyOrEnd | Key | Colon | CommaOrEnd | Finished json

type_synonym pstate = "frame list \<times> expect"

fun reduce :: "json \<Rightarrow> frame list \<Rightarrow> pstate" where
  "reduce v [] = ([], Finished v)"
| "reduce v (ArrayFrame vs # st) = (ArrayFrame (v # vs) # st, CommaOrEnd)"
| "reduce v (ObjectFrame ms k # st) = (ObjectFrame ((k, v) # ms) k # st, CommaOrEnd)"

fun scalar :: "token \<Rightarrow> json option" where
  "scalar (TString s) = Some (JString s)"
| "scalar (TNumber n) = Some (JNumber n)"
| "scalar (TLiteral l) =
     (if l = js ''true'' then Some (JBool True)
      else if l = js ''false'' then Some (JBool False)
      else Some JNull)"
| "scalar t = None"

fun value_step :: "token \<Rightarrow> frame list \<Rightarrow> pstate option" where
  "value_step TLBrack st = Some (ArrayFrame [] # st, ValueOrEnd)"
| "value_step TLBrace st = Some (ObjectFrame [] [] # st, KeyOrEnd)"
| "value_step t st = (case scalar t of None \<Rightarrow> None | Some v \<Rightarrow> Some (reduce v st))"

fun close_array :: "frame list \<Rightarrow> pstate option" where
  "close_array (ArrayFrame vs # st) = Some (reduce (JArray (rev vs)) st)"
| "close_array st = None"

fun close_object :: "frame list \<Rightarrow> pstate option" where
  "close_object (ObjectFrame ms k # st) = Some (reduce (JObject (rev ms)) st)"
| "close_object st = None"

fun key_step :: "token \<Rightarrow> frame list \<Rightarrow> pstate option" where
  "key_step (TString k) (ObjectFrame ms k0 # st) = Some (ObjectFrame ms k # st, Colon)"
| "key_step t st = None"

fun comma_step :: "frame list \<Rightarrow> pstate option" where
  "comma_step [] = None"
| "comma_step (ArrayFrame vs # st) = Some (ArrayFrame vs # st, Value)"
| "comma_step (ObjectFrame ms k # st) = Some (ObjectFrame ms k # st, Key)"

fun parse_step :: "pstate \<Rightarrow> token \<Rightarrow> pstate option" where
  "parse_step (st, Value) t = value_step t st"
| "parse_step (st, ValueOrEnd) t = (if t = TRBrack then close_array st else value_step t st)"
| "parse_step (st, KeyOrEnd) t = (if t = TRBrace then close_object st else key_step t st)"
| "parse_step (st, Key) t = key_step t st"
| "parse_step (st, Colon) t = (if t = TColon then Some (st, Value) else None)"
| "parse_step (st, CommaOrEnd) t =
     (if t = TComma then comma_step st
      else if t = TRBrack then close_array st
      else if t = TRBrace then close_object st
      else None)"
| "parse_step (st, Finished v) t = None"

fun parse_run :: "pstate \<Rightarrow> token list \<Rightarrow> pstate option" where
  "parse_run p [] = Some p"
| "parse_run p (t # ts) =
     (case parse_step p t of None \<Rightarrow> None | Some p1 \<Rightarrow> parse_run p1 ts)"

definition JSON_parse :: "jsstring \<Rightarrow> json option" where
  "JSON_parse s =
     (case lexer s of
        None \<Rightarrow> None
      | Some ts \<Rightarrow>
          (case parse_run ([], Value) ts of
             Some ([], Finished v) \<Rightarrow> Some v
           | _ \<Rightarrow> None))"

section \<open>Numbers\<close>

text \<open>
  The only numbers of the program are the index of \<open>remove\<close>, which is the result
  of \<open>parseInt\<close> (an integer or \<open>NaN\<close>), and array lengths. A comparison with
  \<open>NaN\<close> is false; \<open>NaN - 1\<close> is \<open>NaN\<close>. An integer is kept exact: the program
  only compares it with \<open>1\<close> and with an array length, and rounding a large integer
  to a double does not change those comparisons.
\<close>

datatype number = NaN | Num int

fun num_less :: "number \<Rightarrow> number \<Rightarrow> bool" where
  "num_less (Num a) (Num b) = (a < b)"
| "num_less a b = False"

fun num_minus :: "number \<Rightarrow> int \<Rightarrow> number" where
  "num_minus (Num a) b = Num (a - b)"
| "num_minus NaN b = NaN"

definition digitsValue :: "jsstring \<Rightarrow> int" where
  "digitsValue ds = foldl (\<lambda>a d. 10 * a + (uint d - 48)) 0 ds"

text \<open>
  \<open>parseInt(s, 10)\<close>: leading white space and one sign are skipped, the longest
  prefix of decimal digits is read, and there is no digit exactly when the result
  is \<open>NaN\<close>.
\<close>

definition parseInt :: "jsstring \<Rightarrow> number" where
  "parseInt s =
     (let s1 = dropWhile isStrWhiteSpace s;
          neg = (case s1 of [] \<Rightarrow> False | c # r \<Rightarrow> c = 0x2D);
          s2 = (case s1 of [] \<Rightarrow> [] | c # r \<Rightarrow> if c = 0x2B \<or> c = 0x2D then r else s1);
          ds = takeWhile isDigit s2
      in if ds = [] then NaN
         else Num (if neg then - digitsValue ds else digitsValue ds))"

text \<open>The decimal text of a natural number, as a template literal prints it.\<close>

function Number_toString :: "nat \<Rightarrow> jsstring" where
  "Number_toString n =
     (if n < 10 then [of_nat (48 + n)]
      else Number_toString (n div 10) @ [of_nat (48 + n mod 10)])"
  by pat_completeness auto
termination
  by (relation "measure id") auto

declare Number_toString.simps [simp del]

text \<open>
  \<open>Array.prototype.splice(start, deleteCount)\<close>: the removed elements and the
  array that is left. A \<open>NaN\<close> start counts as \<open>0\<close>, a negative one from the end.
\<close>

definition splice :: "'a list \<Rightarrow> number \<Rightarrow> nat \<Rightarrow> 'a list \<times> 'a list" where
  "splice xs start deleteCount =
     (let len = length xs;
          relativeStart = (case start of NaN \<Rightarrow> 0 | Num k \<Rightarrow> k);
          actualStart =
            (if relativeStart < 0 then nat (max (int len + relativeStart) 0)
             else min (nat relativeStart) len);
          actualDeleteCount = min deleteCount (len - actualStart)
      in (take actualDeleteCount (drop actualStart xs),
          take actualStart xs @ drop (actualStart + actualDeleteCount) xs))"

section \<open>Tasks, the world and the platform\<close>

record task =
  text' :: jsstring
  reminderTime :: "jsstring option"

text \<open>A value is truthy, for an optional string, when it is present and not empty.\<close>

fun truthy :: "jsstring option \<Rightarrow> bool" where
  "truthy None = False"
| "truthy (Some s) = (s \<noteq> [])"

text \<open>
  What the process can change and what can be seen of it: the content of
  \<open>tasks.json\<close> (\<open>None\<close> when the file does not exist), the lines printed with
  \<open>console.log\<close>, and the calls of \<open>setTimeout\<close> (the delay in milliseconds and
  the task the callback notifies about). \<open>saved\<close> is a ghost field: the array last
  passed to \<open>saveTasks\<close>; no function reads it.
\<close>

record world =
  tasksFile :: "jsstring option"
  out :: "jsstring list"
  timers :: "(int \<times> task) list"
  saved :: "task list option"

text \<open>
  The platform and the libraries, as one run of the process sees them:
  \<open>chrono.parseDate\<close> (a time value, or \<open>None\<close> for \<open>null\<close>), the time value of
  \<open>new Date(s)\<close> (\<open>None\<close> when it is \<open>NaN\<close>), \<open>Date.now()\<close>,
  \<open>Date.prototype.toISOString\<close>, \<open>toLocaleString\<close> (of a date that may be
  invalid), and the lines typed at the prompt.
\<close>

record env =
  chrono_parseDate :: "jsstring \<Rightarrow> int option"
  newDate :: "jsstring \<Rightarrow> int option"
  Date_now :: int
  toISOString :: "int \<Rightarrow> jsstring"
  toLocaleString :: "int option \<Rightarrow> jsstring"
  stdin :: "jsstring list"

datatype error = SyntaxError | TypeError | NotTaskArray

definition console_log :: "jsstring \<Rightarrow> world \<Rightarrow> world" where
  "console_log s w = w\<lparr>out := out w @ [s]\<rparr>"

definition setTimeout :: "int \<Rightarrow> task \<Rightarrow> world \<Rightarrow> world" where
  "setTimeout delay t w = w\<lparr>timers := timers w @ [(delay, t)]\<rparr>"

subsection \<open>Tasks as JSON values\<close>

text \<open>
  A task object has the property \<open>text\<close> and, when a reminder was set, the
  property \<open>reminderTime\<close> after it.
\<close>

definition json_of_task :: "task \<Rightarrow> json" where
  "json_of_task t =
     JObject ((js ''text'', JString (text' t)) #
              (case reminderTime t of
                 None \<Rightarrow> []
               | Some r \<Rightarrow> [(js ''reminderTime'', JString r)]))"

text \<open>
  The parsed value seen at the type \<open>Task[]\<close> that \<open>readTasks\<close> declares: an array
  of objects with a string \<open>text\<close>, an optional string \<open>reminderTime\<close> and nothing
  else (of a repeated key the last one counts). Any other value is outside the type
  and outside this model.
\<close>

definition task_of_json :: "json \<Rightarrow> task option" where
  "task_of_json v =
     (case v of
        JObject ms \<Rightarrow>
          if list_all (\<lambda>m. fst m = js ''text'' \<or> fst m = js ''reminderTime'') ms then
            (case map_of (rev ms) (js ''text'') of
               Some (JString s) \<Rightarrow>
                 (case map_of (rev ms) (js ''reminderTime'') of
                    None \<Rightarrow> Some \<lparr>text' = s, reminderTime = None\<rparr>
                  | Some (JString r) \<Rightarrow> Some \<lparr>text' = s, reminderTime = Some r\<rparr>
                  | Some other \<Rightarrow> None)
             | other \<Rightarrow> None)
          else None
      | other \<Rightarrow> None)"

definition tasks_of_json :: "json \<Rightarrow> task list option" where
  "tasks_of_json v = (case v of JArray vs \<Rightarrow> those (map task_of_json vs) | other \<Rightarrow> None)"

section \<open>The program\<close>

subsection \<open>Store\<close>

definition readTasks :: "world \<Rightarrow> error + task list" where
  "readTasks w =
     (case tasksFile w of
        None \<Rightarrow> Inr []
      | Some data \<Rightarrow>
          (case JSON_parse data of
             None \<Rightarrow> Inl SyntaxError
           | Some v \<Rightarrow>
               (case tasks_of_json v of
                  None \<Rightarrow> Inl NotTaskArray
                | Some tasks \<Rightarrow> Inr tasks)))"

definition saveTasks :: "task list \<Rightarrow> world \<Rightarrow> world" where
  "saveTasks tasks w =
     w\<lparr>tasksFile := Some (JSON_stringify (JArray (map json_of_task tasks))),
       saved := Some tasks\<rparr>"

subsection \<open>Reminders\<close>

definition parseReminder :: "env \<Rightarrow> jsstring option \<Rightarrow> world \<Rightarrow> jsstring option \<times> world" where
  "parseReminder e input w =
     (case input of
        None \<Rightarrow> (None, w)
      | Some s \<Rightarrow>
          if s = [] then (None, w)
          else
            (case chrono_parseDate e s of
               Some parsed \<Rightarrow> (Some (toISOString e parsed), w)
             | None \<Rightarrow>
                 (case newDate e s of
                    Some isoDate \<Rightarrow> (Some (toISOString e isoDate), w)
                  | None \<Rightarrow>
                      (None,
                       console_log
                         ([0x26A0, 0xFE0F] @ js '' Could not parse reminder time: '' @
                          [0x22] @ s @ [0x22]) w))))"

definition scheduleReminder :: "env \<Rightarrow> task \<Rightarrow> world \<Rightarrow> world" where
  "scheduleReminder e t w =
     (case reminderTime t of
        None \<Rightarrow> w
      | Some rt \<Rightarrow>
          if rt = [] then w
          else
            (case newDate e rt of
               None \<Rightarrow> w
             | Some reminderDate \<Rightarrow>
                 (let delay = reminderDate - Date_now e
                  in if delay > 0 then setTimeout delay t w else w)))"

definition rescheduleAllReminders :: "env \<Rightarrow> world \<Rightarrow> error option \<times> world" where
  "rescheduleAllReminders e w =
     (case readTasks w of
        Inl err \<Rightarrow> (Some err, w)
      | Inr tasks \<Rightarrow> (None, fold (scheduleReminder e) tasks w))"

subsection \<open>Commands\<close>

definition addTask :: "env \<Rightarrow> jsstring \<Rightarrow> jsstring option \<Rightarrow> world \<Rightarrow> error option \<times> world" where
  "addTask e taskText reminderInput w =
     (case readTasks w of
        Inl err \<Rightarrow> (Some err, w)
      | Inr tasks \<Rightarrow>
          (case parseReminder e reminderInput w of
             (rt, w1) \<Rightarrow>
               (let newTask =
                      (if truthy rt then \<lparr>text' = taskText, reminderTime = rt\<rparr>
                       else \<lparr>text' = taskText, reminderTime = None\<rparr>);
                    w2 = (if truthy rt then scheduleReminder e newTask w1 else w1);
                    w3 = saveTasks (tasks @ [newTask]) w2;
                    w4 = console_log
                           ([0x2705] @ js '' Task '' @ [0x22] @ taskText @ [0x22] @ js '' added!'') w3
                in (None,
                    (case rt of
                       None \<Rightarrow> w4
                     | Some rtime \<Rightarrow>
                         if rtime = [] then w4
                         else console_log
                                ([0x23F0] @ js '' Reminder set for '' @
                                 toLocaleString e (newDate e rtime)) w4)))))"

definition taskLine :: "env \<Rightarrow> nat \<Rightarrow> task \<Rightarrow> jsstring" where
  "taskLine e index t =
     (let reminder =
            (case reminderTime t of
               None \<Rightarrow> []
             | Some rt \<Rightarrow>
                 if rt = [] then []
                 else js '' (Reminder: '' @ toLocaleString e (newDate e rt) @ js '')'')
      in Number_toString (index + 1) @ js ''. '' @ text' t @ reminder)"

text \<open>The \<open>forEach\<close> of \<open>listTasks\<close>, from position \<open>index\<close> on.\<close>

fun printTasks :: "env \<Rightarrow> nat \<Rightarrow> task list \<Rightarrow> world \<Rightarrow> world" where
  "printTasks e index [] w = w"
| "printTasks e index (t # rest) w =
     printTasks e (index + 1) rest (console_log (taskLine e index t) w)"

definition listTasks :: "env \<Rightarrow> world \<Rightarrow> error option \<times> world" where
  "listTasks e w =
     (case readTasks w of
        Inl err \<Rightarrow> (Some err, w)
      | Inr tasks \<Rightarrow>
          if length tasks = 0 then (None, console_log (js ''No tasks available.'') w)
          else (None, printTasks e 0 tasks
                        (console_log ([0xD83D, 0xDCCB] @ js '' Your tasks:'') w)))"

text \<open>
  After the splice the array is saved, and only then is the text of the removed
  task read: with nothing removed that read throws a \<open>TypeError\<close>.
\<close>

definition removeTask :: "number \<Rightarrow> world \<Rightarrow> error option \<times> world" where
  "removeTask index w =
     (case readTasks w of
        Inl err \<Rightarrow> (Some err, w)
      | Inr tasks \<Rightarrow>
          if num_less index (Num 1) \<or> num_less (Num (int (length tasks))) index
          then (None, console_log (js ''Invalid task index!'') w)
          else
            (case splice tasks (num_minus index 1) 1 of
               (removedTask, tasks1) \<Rightarrow>
                 (let w1 = saveTasks tasks1 w
                  in case removedTask of
                       [] \<Rightarrow> (Some TypeError, w1)
                     | t # rest \<Rightarrow>
                         (None,
                          console_log
                            ([0xD83D, 0xDDD1, 0xFE0F] @ js '' Task '' @ [0x22] @ text' t @
                             [0x22] @ js '' removed!'') w1))))"

subsection \<open>Command line\<close>

text \<open>\<open>xs[i]\<close>: \<open>None\<close> stands for \<open>undefined\<close>.\<close>

definition at :: "'a list \<Rightarrow> nat \<Rightarrow> 'a option" where
  "at xs i = (if i < length xs then Some (xs ! i) else None)"

definition usage :: "jsstring list" where
  "usage =
     [js ''Usage:'',
      js ''  npx ts-node src/todo.ts add <task> [reminderTime]'',
      js ''  npx ts-node src/todo.ts list'',
      js ''  npx ts-node src/todo.ts remove <index>'',
      js ''  npx ts-node src/todo.ts            # interactive mode'']"

definition helpLines :: "jsstring list" where
  "helpLines =
     [js ''Commands:'',
      js ''  add <task> [reminderTime]   Add a task with optional reminder'',
      js ''  list                        List all tasks'',
      js ''  remove <index>              Remove a task'',
      js ''  exit                        Quit the app'']"

definition trim :: "jsstring \<Rightarrow> jsstring" where
  "trim s = rev (dropWhile isStrWhiteSpace (rev (dropWhile isStrWhiteSpace s)))"

text \<open>\<open>s.split(" ")\<close>: the pieces between single spaces, empty pieces included.\<close>

fun split_space :: "jsstring \<Rightarrow> jsstring list" where
  "split_space [] = [[]]"
| "split_space (c # cs) =
     (if c = 0x20 then [] # split_space cs
      else (case split_space cs of
              [] \<Rightarrow> [[c]]
            | x # xs \<Rightarrow> (c # x) # xs))"

text \<open>
  The handler of one line of the interactive session. The session goes on, ends
  with \<open>exit\<close> or \<open>quit\<close>, or dies of an exception that nothing catches. The
  prompt is written by the line-reading library and is not recorded.
\<close>

datatype status = Running | Exited | Failed error

fun status_of :: "error option \<times> world \<Rightarrow> status \<times> world" where
  "status_of (None, w) = (Running, w)"
| "status_of (Some err, w) = (Failed err, w)"

definition lineHandler :: "env \<Rightarrow> jsstring \<Rightarrow> world \<Rightarrow> status \<times> world" where
  "lineHandler e line w =
     (let args = split_space (trim line);
          command = at args 0
      in if command = Some (js ''add'') \<and> truthy (at args 1) then
           status_of (addTask e (args ! 1) (Some (join (js '' '') (drop 2 args))) w)
         else if command = Some (js ''list'') then status_of (listTasks e w)
         else if command = Some (js ''remove'') \<and> truthy (at args 1) then
           status_of (removeTask (parseInt (args ! 1)) w)
         else if command = Some (js ''help'') then (Running, fold console_log helpLines w)
         else if command = Some (js ''exit'') \<or> command = Some (js ''quit'') then
           (Exited, console_log ([0xD83D, 0xDC4B] @ js '' Exiting todo app...'') w)
         else (Running,
               console_log (js ''Unknown command. Type '' @ [0x27] @ js ''help'' @ [0x27] @
                            js '' for usage.'') w))"

fun interactiveLoop :: "env \<Rightarrow> jsstring list \<Rightarrow> world \<Rightarrow> error option \<times> world" where
  "interactiveLoop e [] w = (None, w)"
| "interactiveLoop e (line # rest) w =
     (case lineHandler e line w of
        (Running, w1) \<Rightarrow> interactiveLoop e rest w1
      | (Exited, w1) \<Rightarrow> (None, w1)
      | (Failed err, w1) \<Rightarrow> (Some err, w1))"

definition interactiveCLI :: "env \<Rightarrow> world \<Rightarrow> error option \<times> world" where
  "interactiveCLI e w =
     interactiveLoop e (stdin e)
       (console_log ([0xD83D, 0xDCCC] @ js '' Todo CLI started (type '' @ [0x27] @ js ''help'' @
                     [0x27] @ js '' for commands)'') w)"

text \<open>
  \<open>args\<close> is \<open>process.argv.slice(2)\<close>. Where \<open>args[1]\<close> is truthy the array has
  a second element, so \<open>args ! 1\<close> is that element.
\<close>

definition cli :: "env \<Rightarrow> jsstring list \<Rightarrow> world \<Rightarrow> error option \<times> world" where
  "cli e args w =
     (if length args = 0 then interactiveCLI e w
      else
        (let command = at args 0
         in if command = Some (js ''add'') \<and> truthy (at args 1) then
              addTask e (args ! 1) (Some (join (js '' '') (drop 2 args))) w
            else if command = Some (js ''list'') then listTasks e w
            else if command = Some (js ''remove'') \<and> truthy (at args 1) then
              removeTask (parseInt (args ! 1)) w
            else (None, fold console_log usage w)))"

text \<open>The start of the process: the reminders of the store, then the command.\<close>

definition main :: "env \<Rightarrow> jsstring list \<Rightarrow> world \<Rightarrow> error option \<times> world" where
  "main e args w =
     (case rescheduleAllReminders e w of
        (Some err, w1) \<Rightarrow> (Some err, w1)
      | (None, w1) \<Rightarrow> cli e args w1)"

text \<open>
  Runs of the process one after the other, each with its platform and its
  arguments, on the file the run before left. A new process has no timer.
\<close>

fun runs :: "(env \<times> jsstring list) list \<Rightarrow> world \<Rightarrow> world" where
  "runs [] w = w"
| "runs ((e, args) # rest) w = runs rest (snd (main e args (w\<lparr>timers := []\<rparr>)))"

section \<open>Auxiliary definitions for the proofs\<close>

text \<open>The tokens of a serialized task, and of the elements of a serialized array.\<close>

definition task_tokens :: "task \<Rightarrow> token list" where
  "task_tokens t =
     [TLBrace, TString (js ''text''), TColon, TString (text' t)] @
     (case reminderTime t of
        None \<Rightarrow> []
      | Some r \<Rightarrow> [TComma, TString (js ''reminderTime''), TColon, TString r]) @
     [TRBrace]"

fun elems_tokens :: "task list \<Rightarrow> token list" where
  "elems_tokens [] = []"
| "elems_tokens [t] = task_tokens t"
| "elems_tokens (t # u # ts) = task_tokens t @ TComma # elems_tokens (u # ts)"

text \<open>The numbered lines that \<open>listTasks\<close> prints for an array, from position \<open>index\<close> on.\<close>

fun taskLines :: "env \<Rightarrow> nat \<Rightarrow> task list \<Rightarrow> jsstring list" where
  "taskLines e index [] = []"
| "taskLines e index (t # rest) = taskLine e index t # taskLines e (index + 1) rest"

text \<open>The file decodes to the array of the latest save, when there was one.\<close>

definition store_ok :: "world \<Rightarrow> bool" where
  "store_ok w = (case saved w of None \<Rightarrow> True | Some ts \<Rightarrow> readTasks w = Inr ts)"

text \<open>
  Concrete inputs for the examples: a world with no file and nothing printed; a
  platform that recognises no date; and one that knows the single timestamp
  \<open>1970-01-01T00:00:00.000Z\<close>, one second in the past.
\<close>

definition fresh :: world where
  "fresh = \<lparr>tasksFile = None, out = [], timers = [], saved = None\<rparr>"

definition no_dates :: env where
  "no_dates =
     \<lparr>chrono_parseDate = (\<lambda>s. None), newDate = (\<lambda>s. None), Date_now = 0,
      toISOString = (\<lambda>d. []), toLocaleString = (\<lambda>d. js ''Invalid Date''), stdin = []\<rparr>"

definition epoch_only :: env where
  "epoch_only =
     \<lparr>chrono_parseDate = (\<lambda>s. None),
      newDate = (\<lambda>s. if s = js ''1970-01-01T00:00:00.000Z'' then Some 0 else None),
      Date_now = 1000,
      toISOString = (\<lambda>d. js ''1970-01-01T00:00:00.000Z''),
      toLocaleString = (\<lambda>d. js ''1/1/1970, 12:00:00 AM''),
      stdin = []\<rparr>"

section \<open>The store round trip\<close>

subsection \<open>Lexing what \<open>JSON.stringify\<close> writes\<close>

lemma lex_run_append:
  "lex_run st (xs @ ys) =
     (case lex_run st xs of
        None \<Rightarrow> None
      | Some (ts, st1) \<Rightarrow>
          (case lex_run st1 ys of
             None \<Rightarrow> None
           | Some (ts1, st2) \<Rightarrow> Some (ts @ ts1, st2)))"
  by (induction xs arbitrary: st) (auto split: option.splits)

lemma hex_value:
  "16 * (16 * (16 * (n div 4096) + n div 256 mod 16) + n div 16 mod 16) + n mod 16 = (n::nat)"
proof -
  have a: "n div 4096 = n div 256 div 16" by (simp add: div_mult2_eq)
  have b: "n div 256 = n div 16 div 16" by (simp add: div_mult2_eq)
  have "16 * (n div 4096) + n div 256 mod 16 = n div 256"
    unfolding a by (rule mult_div_mod_eq)
  moreover have "16 * (n div 256) + n div 16 mod 16 = n div 16"
    unfolding b by (rule mult_div_mod_eq)
  moreover have "16 * (n div 16) + n mod 16 = n"
    by (rule mult_div_mod_eq)
  ultimately show ?thesis by simp
qed

lemma unat_small: "m < 65536 \<Longrightarrow> unat (of_nat m :: 16 word) = m"
  by (simp add: unat_of_nat)

lemma unat_hexdigit: "n < 16 \<Longrightarrow> unat (hexdigit n) = (if n < 10 then 48 + n else 87 + n)"
  using unat_small[of "48 + n"] unat_small[of "87 + n"] by (simp add: hexdigit_def)

lemma hexval_hexdigit: "n < 16 \<Longrightarrow> hexval (hexdigit n) = Some n"
  by (simp add: hexval_def word_le_nat_alt unat_hexdigit)

lemma lex_run_UnicodeEscape:
  "lex_run (InString acc) (UnicodeEscape c) = Some ([], InString (acc @ [c]))"
proof -
  have lt: "unat c < 65536" using unsigned_less[of c, where 'a=nat] by simp
  have d: "unat c div 4096 < 16" using lt by simp
  have d2: "unat c div 256 mod 16 < 16" "unat c div 16 mod 16 < 16" "unat c mod 16 < 16"
    by simp_all
  have v: "(of_nat (16 * (16 * (16 * (unat c div 4096) + unat c div 256 mod 16) + unat c div 16 mod 16) + unat c mod 16) :: 16 word) = c"
    by (simp only: hex_value) simp
  show ?thesis
    using v
    by (simp add: UnicodeEscape_def hexval_hexdigit d d2 del: of_nat_add of_nat_mult)
qed

lemma trailing_plain:
  "isTrailingSurrogate d \<Longrightarrow> lex_step (InString acc) d = Some ([], InString (acc @ [d]))"
  by (auto simp: isTrailingSurrogate_def word_le_nat_alt word_less_nat_alt)

lemma lex_run_quoteJSONChars:
  "lex_run (InString acc) (quoteJSONChars s) = Some ([], InString (acc @ s))"
proof (induction s arbitrary: acc rule: quoteJSONChars.induct)
  case 1
  show ?case by simp
next
  case (2 c cs)
  consider (e1) "c = 0x08" | (e2) "c = 0x09" | (e3) "c = 0x0A" | (e4) "c = 0x0C"
    | (e5) "c = 0x0D" | (e6) "c = 0x22" | (e7) "c = 0x5C"
    | (other) "c \<noteq> 0x08" "c \<noteq> 0x09" "c \<noteq> 0x0A" "c \<noteq> 0x0C" "c \<noteq> 0x0D" "c \<noteq> 0x22" "c \<noteq> 0x5C"
    by blast
  then show ?case
  proof cases
    case e1 then show ?thesis using 2(1) by simp
  next
    case e2 then show ?thesis using 2(2) by simp
  next
    case e3 then show ?thesis using 2(3) by simp
  next
    case e4 then show ?thesis using 2(4) by simp
  next
    case e5 then show ?thesis using 2(5) by simp
  next
    case e6 then show ?thesis using 2(6) by simp
  next
    case e7 then show ?thesis using 2(7) by simp
  next
    case other
    show ?thesis
    proof (cases "c < 0x20")
      case True
      then show ?thesis using other 2(8)
        by (simp add: lex_run_append lex_run_UnicodeEscape)
    next
      case nc: False
      have step: "lex_step (InString acc) c = Some ([], InString (acc @ [c]))" for acc
        using other nc by simp
      show ?thesis
      proof (cases "isLeadingSurrogate c")
        case True
        show ?thesis
        proof (cases cs)
          case Nil
          then show ?thesis using other nc True
            by (simp add: lex_run_UnicodeEscape)
        next
          case (Cons d ds)
          show ?thesis
          proof (cases "isTrailingSurrogate d")
            case td: True
            have "lex_run (InString ((acc @ [c]) @ [d])) (quoteJSONChars ds) = Some ([], InString (((acc @ [c]) @ [d]) @ ds))"
              using 2(9)[OF other nc True Cons td] .
            then show ?thesis using other nc True Cons td step trailing_plain[OF td]
              by (simp del: lex_step.simps)
          next
            case False
            then show ?thesis using other nc True Cons 2(10)
              by (simp add: lex_run_append lex_run_UnicodeEscape)
          qed
        qed
      next
        case nl: False
        show ?thesis
        proof (cases "isTrailingSurrogate c")
          case True
          then show ?thesis using other nc nl 2(11)
            by (simp add: lex_run_append lex_run_UnicodeEscape)
        next
          case False
          then show ?thesis using other nc nl 2(12) step
            by (simp del: lex_step.simps)
        qed
      qed
    qed
  qed
qed

lemma lex_run_QuoteJSONString:
  "lex_run Idle (QuoteJSONString s) = Some ([TString s], Idle)"
  by (simp add: QuoteJSONString_def lex_run_append lex_run_quoteJSONChars idle_step_def isJSONWhiteSpace_def isDigit_def isLiteralChar_def)

lemma lex_run_white:
  "list_all isJSONWhiteSpace ws \<Longrightarrow> lex_run Idle ws = Some ([], Idle)"
  by (induction ws) (simp_all add: idle_step_def)

lemma white_gap: "list_all isJSONWhiteSpace gap"
  by (simp add: gap_def js_def isJSONWhiteSpace_def)

lemma lex_run_punct:
  "lex_run Idle (js ''['') = Some ([TLBrack], Idle)"
  "lex_run Idle (js '']'') = Some ([TRBrack], Idle)"
  "lex_run Idle (js ''{'') = Some ([TLBrace], Idle)"
  "lex_run Idle (js ''}'') = Some ([TRBrace], Idle)"
  "lex_run Idle (js '','') = Some ([TComma], Idle)"
  "lex_run Idle (js '': '') = Some ([TColon], Idle)"
  "lex_run Idle [0x0A] = Some ([], Idle)"
  by (simp_all add: js_def idle_step_def isJSONWhiteSpace_def)

lemma idle_step_newline: "idle_step 0x0A = Some ([], Idle)"
  by (simp add: idle_step_def isJSONWhiteSpace_def)

lemma lex_run_task:
  assumes "list_all isJSONWhiteSpace ind"
  shows "lex_run Idle (serialize ind (json_of_task t)) = Some (task_tokens t, Idle)"
proof -
  have w: "lex_run Idle ind = Some ([], Idle)" "lex_run Idle gap = Some ([], Idle)"
    using assms white_gap by (simp_all add: lex_run_white)
  show ?thesis
    by (cases "reminderTime t")
       (simp_all add: json_of_task_def task_tokens_def lex_run_append lex_run_punct
          lex_run_QuoteJSONString w idle_step_newline)
qed

lemma lex_run_elems:
  assumes "list_all isJSONWhiteSpace ind"
  shows "lex_run Idle (join (js '','' @ [0x0A] @ ind) (map (serialize ind \<circ> json_of_task) ts))
         = Some (elems_tokens ts, Idle)"
proof (induction ts rule: elems_tokens.induct)
  case 1
  show ?case by simp
next
  case (2 t)
  show ?case using assms by (simp add: lex_run_task)
next
  case (3 t u ts)
  have w: "lex_run Idle ind = Some ([], Idle)"
    using assms by (simp add: lex_run_white)
  show ?case using 3 assms
    by (simp add: lex_run_append lex_run_task lex_run_punct w idle_step_newline)
qed

lemma lexer_tasks:
  "lexer (JSON_stringify (JArray (map json_of_task ts))) = Some (TLBrack # elems_tokens ts @ [TRBrack])"
proof (cases ts)
  case Nil
  then show ?thesis
    by (simp add: lexer_def JSON_stringify_def js_def idle_step_def isJSONWhiteSpace_def)
next
  case (Cons t us)
  have "lex_run Idle (join (js '','' @ [0x0A] @ gap) (map (serialize gap \<circ> json_of_task) ts))
         = Some (elems_tokens ts, Idle)"
    by (rule lex_run_elems[OF white_gap])
  then show ?thesis using Cons white_gap
    by (simp add: lexer_def JSON_stringify_def lex_run_append lex_run_punct lex_run_white comp_def idle_step_newline)
qed

subsection \<open>Parsing the tokens\<close>

lemma parse_run_task:
  "m = Value \<or> m = ValueOrEnd \<Longrightarrow>
   parse_run (ArrayFrame vs # st, m) (task_tokens t @ rest)
   = parse_run (ArrayFrame (json_of_task t # vs) # st, CommaOrEnd) rest"
  by (cases "reminderTime t") (auto simp: task_tokens_def json_of_task_def)

lemma parse_run_elems:
  "ts \<noteq> [] \<Longrightarrow> m = Value \<or> m = ValueOrEnd \<Longrightarrow>
   parse_run (ArrayFrame vs # st, m) (elems_tokens ts @ rest)
   = parse_run (ArrayFrame (rev (map json_of_task ts) @ vs) # st, CommaOrEnd) rest"
proof (induction ts arbitrary: vs m rule: elems_tokens.induct)
  case 1
  then show ?case by simp
next
  case (2 t)
  then show ?case by (simp add: parse_run_task)
next
  case (3 t u ts)
  have "parse_run (ArrayFrame (json_of_task t # vs) # st, Value) (elems_tokens (u # ts) @ rest)
        = parse_run (ArrayFrame (rev (map json_of_task (u # ts)) @ json_of_task t # vs) # st, CommaOrEnd) rest"
    by (rule 3(1)) simp_all
  then show ?case using 3(3)
    by (simp add: parse_run_task)
qed

lemma parse_tokens_tasks:
  "parse_run ([], Value) (TLBrack # elems_tokens ts @ [TRBrack])
   = Some ([], Finished (JArray (map json_of_task ts)))"
proof (cases "ts = []")
  case True
  then show ?thesis by simp
next
  case False
  then show ?thesis
    by (simp add: parse_run_elems)
qed

lemma JSON_parse_stringify_tasks:
  "JSON_parse (JSON_stringify (JArray (map json_of_task ts))) = Some (JArray (map json_of_task ts))"
  by (simp add: JSON_parse_def lexer_tasks parse_tokens_tasks del: parse_run.simps)

subsection \<open>Reading back what was saved\<close>

lemma key_distinct: "js ''text'' \<noteq> js ''reminderTime''"
  by (simp add: js_def)

lemma task_of_json_inverse: "task_of_json (json_of_task t) = Some t"
  using key_distinct
  by (cases "reminderTime t") (auto simp: task_of_json_def json_of_task_def)

lemma tasks_of_json_inverse: "tasks_of_json (JArray (map json_of_task ts)) = Some ts"
proof -
  have "those (map task_of_json (map json_of_task ts)) = Some ts"
    by (induction ts) (simp_all add: task_of_json_inverse)
  then show ?thesis
    by (simp add: tasks_of_json_def)
qed

lemma read_after_save: "readTasks (saveTasks ts w) = Inr ts"
  by (simp add: readTasks_def saveTasks_def JSON_parse_stringify_tasks tasks_of_json_inverse)

section \<open>What the operations change\<close>

lemma console_log_fields [simp]:
  "tasksFile (console_log s w) = tasksFile w"
  "out (console_log s w) = out w @ [s]"
  "timers (console_log s w) = timers w"
  "saved (console_log s w) = saved w"
  by (simp_all add: console_log_def)

lemma setTimeout_fields [simp]:
  "tasksFile (setTimeout d t w) = tasksFile w"
  "out (setTimeout d t w) = out w"
  "timers (setTimeout d t w) = timers w @ [(d, t)]"
  "saved (setTimeout d t w) = saved w"
  by (simp_all add: setTimeout_def)

lemma saveTasks_fields [simp]:
  "out (saveTasks ts w) = out w"
  "timers (saveTasks ts w) = timers w"
  "saved (saveTasks ts w) = Some ts"
  by (simp_all add: saveTasks_def)

lemma readTasks_cong: "tasksFile w1 = tasksFile w \<Longrightarrow> readTasks w1 = readTasks w"
  by (simp add: readTasks_def)

lemma scheduleReminder_fields [simp]:
  "tasksFile (scheduleReminder e t w) = tasksFile w"
  "out (scheduleReminder e t w) = out w"
  "saved (scheduleReminder e t w) = saved w"
  by (simp_all add: scheduleReminder_def Let_def split: option.splits)

lemma saveTasks_frame:
  "tasksFile w1 = tasksFile w \<Longrightarrow> tasksFile (saveTasks ts w1) = tasksFile (saveTasks ts w)"
  by (simp add: saveTasks_def)

lemma parseReminder_fields [simp]:
  "tasksFile (snd (parseReminder e input w)) = tasksFile w"
  "timers (snd (parseReminder e input w)) = timers w"
  "saved (snd (parseReminder e input w)) = saved w"
  by (simp_all add: parseReminder_def split: option.splits)

lemma printTasks_fields [simp]:
  "tasksFile (printTasks e i ts w) = tasksFile w"
  "out (printTasks e i ts w) = out w @ taskLines e i ts"
  "timers (printTasks e i ts w) = timers w"
  "saved (printTasks e i ts w) = saved w"
  by (induction ts arbitrary: i w) simp_all

lemma taskLines_append:
  "taskLines e i (xs @ ys) = taskLines e i xs @ taskLines e (i + length xs) ys"
  by (induction xs arbitrary: i) simp_all

lemma taskLines_nth:
  "j < length ts \<Longrightarrow> taskLines e i ts ! j = taskLine e (i + j) (ts ! j)"
proof (induction ts arbitrary: i j)
  case Nil
  then show ?case by simp
next
  case (Cons t ts)
  then show ?case by (cases j) simp_all
qed

lemma length_taskLines [simp]: "length (taskLines e i ts) = length ts"
  by (induction ts arbitrary: i) simp_all

lemma listTasks_ok:
  "readTasks w = Inr ts \<Longrightarrow>
   listTasks e w =
     (None, if ts = [] then console_log (js ''No tasks available.'') w
            else printTasks e 0 ts (console_log ([0xD83D, 0xDCCB] @ js '' Your tasks:'') w))"
  by (simp add: listTasks_def)

lemma addTask_ok:
  assumes "readTasks w = Inr ts"
  shows "fst (addTask e T r w) = None"
    and "readTasks (snd (addTask e T r w)) =
           Inr (ts @ [\<lparr>text' = T, reminderTime = (if truthy (fst (parseReminder e r w)) then fst (parseReminder e r w) else None)\<rparr>])"
proof -
  show "fst (addTask e T r w) = None"
    using assms by (simp add: addTask_def Let_def split: prod.splits option.splits)
  have rd: "readTasks (console_log s (saveTasks xs w1)) = Inr xs" for s xs w1
    by (simp add: readTasks_cong[of "console_log s (saveTasks xs w1)" "saveTasks xs w1"] read_after_save)
  have rd2: "readTasks (console_log s2 (console_log s (saveTasks xs w1))) = Inr xs" for s s2 xs w1
    by (simp add: readTasks_cong[of "console_log s2 (console_log s (saveTasks xs w1))" "saveTasks xs w1"] read_after_save)
  show "readTasks (snd (addTask e T r w)) =
           Inr (ts @ [\<lparr>text' = T, reminderTime = (if truthy (fst (parseReminder e r w)) then fst (parseReminder e r w) else None)\<rparr>])"
    using assms
    by (cases "parseReminder e r w")
       (auto simp: addTask_def Let_def rd rd2 split: option.splits)
qed

section \<open>The store after any sequence of runs\<close>

lemma store_ok_frame:
  "tasksFile w1 = tasksFile w \<Longrightarrow> saved w1 = saved w \<Longrightarrow> store_ok w1 = store_ok w"
  using readTasks_cong[of w1 w] by (simp add: store_ok_def split: option.splits)

lemma store_ok_saveTasks [simp]: "store_ok (saveTasks ts w)"
  by (simp add: store_ok_def read_after_save)

lemma store_ok_console_log [simp]: "store_ok (console_log s w) = store_ok w"
  by (rule store_ok_frame) simp_all

lemma store_ok_setTimeout [simp]: "store_ok (setTimeout d t w) = store_ok w"
  by (rule store_ok_frame) simp_all

lemma store_ok_scheduleReminder [simp]: "store_ok (scheduleReminder e t w) = store_ok w"
  by (rule store_ok_frame) simp_all

lemma store_ok_parseReminder [simp]: "store_ok (snd (parseReminder e r w)) = store_ok w"
  by (rule store_ok_frame) simp_all

lemma store_ok_printTasks [simp]: "store_ok (printTasks e i ts w) = store_ok w"
  by (rule store_ok_frame) simp_all

lemma store_ok_fold_console_log [simp]: "store_ok (fold console_log ls w) = store_ok w"
  by (induction ls arbitrary: w) simp_all

lemma store_ok_fold_scheduleReminder [simp]:
  "store_ok (fold (scheduleReminder e) ts w) = store_ok w"
  by (induction ts arbitrary: w) simp_all

lemma store_ok_timers [simp]: "store_ok (w\<lparr>timers := x\<rparr>) = store_ok w"
  by (rule store_ok_frame) simp_all

lemma store_ok_addTask: "store_ok w \<Longrightarrow> store_ok (snd (addTask e T r w))"
  by (cases "parseReminder e r w")
     (auto simp: addTask_def Let_def split: sum.splits option.splits)

lemma store_ok_listTasks: "store_ok w \<Longrightarrow> store_ok (snd (listTasks e w))"
  by (auto simp: listTasks_def split: sum.splits)

lemma store_ok_removeTask: "store_ok w \<Longrightarrow> store_ok (snd (removeTask i w))"
  by (auto simp: removeTask_def Let_def split: sum.splits prod.splits list.splits)

lemma snd_status_of [simp]: "snd (status_of p) = snd p"
  by (cases p rule: status_of.cases) simp_all

lemma store_ok_lineHandler: "store_ok w \<Longrightarrow> store_ok (snd (lineHandler e l w))"
  by (simp add: lineHandler_def Let_def store_ok_addTask store_ok_listTasks store_ok_removeTask)

lemma store_ok_interactiveLoop: "store_ok w \<Longrightarrow> store_ok (snd (interactiveLoop e ls w))"
proof (induction ls arbitrary: w)
  case Nil
  then show ?case by simp
next
  case (Cons l ls)
  have "store_ok (snd (lineHandler e l w))"
    using Cons.prems by (rule store_ok_lineHandler)
  then show ?case
    using Cons.IH
    by (cases "lineHandler e l w") (auto split: status.splits)
qed

lemma store_ok_cli: "store_ok w \<Longrightarrow> store_ok (snd (cli e args w))"
  by (simp add: cli_def Let_def interactiveCLI_def store_ok_addTask store_ok_listTasks
        store_ok_removeTask store_ok_interactiveLoop)

lemma store_ok_main: "store_ok w \<Longrightarrow> store_ok (snd (main e args w))"
  by (auto simp: main_def rescheduleAllReminders_def store_ok_cli split: sum.splits)

lemma store_ok_runs: "store_ok w \<Longrightarrow> store_ok (runs rs w)"
proof (induction rs arbitrary: w)
  case Nil
  then show ?case by simp
next
  case (Cons r rs)
  obtain e args where r: "r = (e, args)" by (cases r)
  have "store_ok (snd (main e args (w\<lparr>timers := []\<rparr>)))"
    using Cons.prems by (simp add: store_ok_main)
  then show ?case
    using Cons.IH r by simp
qed

section \<open>Auxiliary facts about the commands\<close>

lemma readTasks_fresh: "readTasks fresh = Inr []"
  by (simp add: readTasks_def fresh_def)

text \<open>
  C1: on a store that holds the tasks \<open>ts\<close>, \<open>add T\<close> ends without an exception and
  the store then holds \<open>ts\<close> followed by a task with the text \<open>T\<close>; a \<open>list\<close> after it
  prints the header, the lines of \<open>ts\<close> as before, and last the line with the number
  \<open>length ts + 1\<close>, a dot, a space and \<open>T\<close> (followed by the reminder, which is
  empty when no reminder text was given).
\<close>

lemma readTasks_saved_one:
  "readTasks (saveTasks [t] fresh) = Inr [t]"
  by (rule read_after_save)

lemma readTasks_after_save_log:
  "readTasks (console_log s (saveTasks xs w)) = Inr xs"
  using readTasks_cong[of "console_log s (saveTasks xs w)" "saveTasks xs w"]
  by (simp add: read_after_save)

lemma taskLines_map:
  "taskLines e i xs = map (\<lambda>j. taskLine e (i + j) (xs ! j)) [0..<length xs]"
  by (rule nth_equalityI) (simp_all add: taskLines_nth)

lemma nth_without:
  assumes "k < length ts" and "j < length ts - 1"
  shows "(take k ts @ drop (Suc k) ts) ! j = ts ! (if j < k then j else j + 1)"
proof (cases "j < k")
  case True
  then show ?thesis using assms by (simp add: nth_append)
next
  case False
  then have "(take k ts @ drop (Suc k) ts) ! j = drop (Suc k) ts ! (j - k)"
    using assms by (simp add: nth_append min_def)
  also have "\<dots> = ts ! (Suc k + (j - k))"
    using assms False by simp
  also have "Suc k + (j - k) = j + 1"
    using False by simp
  finally show ?thesis using False by simp
qed

lemma splice_one:
  assumes "1 \<le> i" and "i \<le> int (length ts)"
  shows "splice ts (num_minus (Num i) 1) 1
         = ([ts ! (nat i - 1)], take (nat i - 1) ts @ drop (Suc (nat i - 1)) ts)"
proof -
  have k: "nat (i - 1) = nat i - 1" "nat i - 1 < length ts" "\<not> i - 1 < 0"
    using assms by auto
  have "take 1 (drop (nat i - 1) ts) = [ts ! (nat i - 1)]"
    using k(2) by (simp add: Cons_nth_drop_Suc[symmetric])
  moreover have "min 1 (length ts - (nat i - 1)) = 1"
    using k(2) by simp
  moreover have "min (nat i - 1) (length ts) = nat i - 1"
    using k(2) by simp
  ultimately show ?thesis
    using k(1,3) by (simp add: splice_def Let_def del: One_nat_def)
qed

lemma splice_NaN: "splice (t # ts) NaN (Suc 0) = ([t], ts)"
  by (simp add: splice_def)

lemma fold_schedule_no_timer:
  "(\<forall>t\<in>set ts. \<forall>rt d. reminderTime t = Some rt \<and> newDate e rt = Some d \<longrightarrow> d - Date_now e \<le> 0)
   \<Longrightarrow> fold (scheduleReminder e) ts w = w"
proof (induction ts arbitrary: w)
  case Nil
  then show ?case by simp
next
  case (Cons t ts)
  have "scheduleReminder e t w = w"
    using Cons.prems by (auto simp: scheduleReminder_def Let_def split: option.splits)
  moreover have "fold (scheduleReminder e) ts w = w"
    by (rule Cons.IH) (use Cons.prems in auto)
  ultimately show ?case by simp
qed

lemma saved_add_run:
  "saved (runs [(no_dates, [js ''add'', js ''a''])] fresh)
   = Some [\<lparr>text' = js ''a'', reminderTime = None\<rparr>]"
  by (simp add: main_def rescheduleAllReminders_def cli_def at_def addTask_def parseReminder_def
        readTasks_def fresh_def Let_def js_def)

section \<open>Verified properties\<close>

subsection \<open>Adding a task\<close>

text \<open>
  C1: on a store that holds the tasks \<open>ts\<close>, \<open>add T\<close> ends without an exception and
  the store then holds \<open>ts\<close> followed by a task with the text \<open>T\<close>; a \<open>list\<close> after it
  prints the header, the lines of \<open>ts\<close> as before, and last the line with the number
  \<open>length ts + 1\<close>, a dot, a space and \<open>T\<close> (followed by the reminder, which is
  empty when no reminder text was given).
\<close>

theorem addTask_then_listTasks:
  assumes "readTasks w = Inr ts"
  shows "fst (addTask e T r w) = None \<and>
         (\<exists>t suffix.
            text' t = T \<and>
            readTasks (snd (addTask e T r w)) = Inr (ts @ [t]) \<and>
            fst (listTasks e (snd (addTask e T r w))) = None \<and>
            out (snd (listTasks e (snd (addTask e T r w)))) =
              out (snd (addTask e T r w)) @
              ([0xD83D, 0xDCCB] @ js '' Your tasks:'') # taskLines e 0 ts @
              [Number_toString (length ts + 1) @ js ''. '' @ T @ suffix] \<and>
            (\<not> truthy r \<longrightarrow> suffix = []))"
proof -
  define t where
    "t = \<lparr>text' = T, reminderTime =
           (if truthy (fst (parseReminder e r w)) then fst (parseReminder e r w) else None)\<rparr>"
  define suffix where
    "suffix = (case reminderTime t of
              None \<Rightarrow> []
            | Some rt \<Rightarrow>
                if rt = [] then []
                else js '' (Reminder: '' @ toLocaleString e (newDate e rt) @ js '')'')"
  let ?w1 = "snd (addTask e T r w)"
  have ok: "fst (addTask e T r w) = None" and rd: "readTasks ?w1 = Inr (ts @ [t])"
    using addTask_ok[OF assms] by (simp_all add: t_def)
  have tT: "text' t = T"
    by (simp add: t_def)
  have line: "taskLine e (length ts) t = Number_toString (length ts + 1) @ js ''. '' @ T @ suffix"
    by (simp add: taskLine_def suffix_def tT)
  have lst: "listTasks e ?w1 =
      (None, printTasks e 0 (ts @ [t]) (console_log ([0xD83D, 0xDCCB] @ js '' Your tasks:'') ?w1))"
    using listTasks_ok[OF rd] by simp
  have outl: "out (snd (listTasks e ?w1)) =
      out ?w1 @ ([0xD83D, 0xDCCB] @ js '' Your tasks:'') # taskLines e 0 ts @
      [Number_toString (length ts + 1) @ js ''. '' @ T @ suffix]"
    unfolding lst by (simp add: taskLines_append line)
  have norem: "\<not> truthy r \<longrightarrow> suffix = []"
    by (cases r) (simp_all add: suffix_def t_def parseReminder_def)
  have "text' t = T \<and> readTasks ?w1 = Inr (ts @ [t]) \<and> fst (listTasks e ?w1) = None \<and>
     out (snd (listTasks e ?w1)) =
       out ?w1 @ ([0xD83D, 0xDCCB] @ js '' Your tasks:'') # taskLines e 0 ts @
       [Number_toString (length ts + 1) @ js ''. '' @ T @ suffix] \<and>
     (\<not> truthy r \<longrightarrow> suffix = [])"
    using tT rd lst outl norem by simp
  then show ?thesis using ok by blast
qed

theorem addTask_then_listTasks_witness:
  "readTasks fresh = Inr [] \<and>
   fst (addTask no_dates (js ''Buy milk'') None fresh) = None \<and>
   last (out (snd (listTasks no_dates (snd (addTask no_dates (js ''Buy milk'') None fresh)))))
     = js ''1. Buy milk''"
proof -
  have one: "Number_toString (length ([]::task list) + 1) = js ''1''"
    by (simp add: Number_toString.simps js_def)
  have cat: "js ''1'' @ js ''. '' @ js ''Buy milk'' = js ''1. Buy milk''"
    by (simp add: js_def)
  show ?thesis
    using addTask_then_listTasks[OF readTasks_fresh, of no_dates "js ''Buy milk''" None]
      readTasks_fresh
    unfolding one
    by (auto simp: cat)
qed

subsection \<open>The round trip of the store\<close>

text \<open>
  C2: \<open>readTasks\<close> after \<open>saveTasks ts\<close> returns exactly \<open>ts\<close>. Hence, starting from
  a world in which nothing was saved yet, after any sequence of runs of the program
  (adds, removes, lists, interactive sessions), if an array was saved then reading
  the store returns the array of the latest save.
\<close>

theorem saveTasks_readTasks_roundtrip:
  "readTasks (saveTasks ts w) = Inr ts \<and>
   (saved w = None \<longrightarrow> saved (runs rs w) = Some ts1 \<longrightarrow> readTasks (runs rs w) = Inr ts1)"
proof -
  have "store_ok (runs rs w)" if "saved w = None"
    using that by (intro store_ok_runs) (simp add: store_ok_def)
  then show ?thesis
    by (auto simp: read_after_save store_ok_def)
qed

theorem saveTasks_readTasks_roundtrip_witness:
  "saved fresh = None \<and>
   saved (runs [(no_dates, [js ''add'', js ''a''])] fresh)
     = Some [\<lparr>text' = js ''a'', reminderTime = None\<rparr>] \<and>
   readTasks (runs [(no_dates, [js ''add'', js ''a''])] fresh)
     = Inr [\<lparr>text' = js ''a'', reminderTime = None\<rparr>] \<and>
   readTasks (saveTasks [\<lparr>text' = js ''a'', reminderTime = None\<rparr>] fresh)
     = Inr [\<lparr>text' = js ''a'', reminderTime = None\<rparr>]"
  using saveTasks_readTasks_roundtrip[of "[\<lparr>text' = js ''a'', reminderTime = None\<rparr>]" fresh
      "[(no_dates, [js ''add'', js ''a''])]" "[\<lparr>text' = js ''a'', reminderTime = None\<rparr>]"]
    saved_add_run
  by (simp add: fresh_def)

subsection \<open>Removing a task\<close>

text \<open>
  C3: on a store of \<open>n\<close> tasks, \<open>remove i\<close> with an integer \<open>i\<close> below \<open>1\<close> or above
  \<open>n\<close> prints \<open>Invalid task index!\<close> and changes nothing else: the file is as
  before and nothing is saved. (An index that is \<open>NaN\<close> is the subject of C10.)
\<close>

theorem removeTask_out_of_range:
  assumes "readTasks w = Inr ts" and "i < 1 \<or> int (length ts) < i"
  shows "removeTask (Num i) w = (None, w\<lparr>out := out w @ [js ''Invalid task index!'']\<rparr>)"
  using assms by (auto simp: removeTask_def console_log_def)

theorem removeTask_out_of_range_witness:
  "readTasks (saveTasks [\<lparr>text' = js ''a'', reminderTime = None\<rparr>] fresh)
     = Inr [\<lparr>text' = js ''a'', reminderTime = None\<rparr>] \<and>
   ((2::int) < 1 \<or> int (length [\<lparr>text' = js ''a'', reminderTime = None\<rparr>]) < 2) \<and>
   removeTask (Num 2) (saveTasks [\<lparr>text' = js ''a'', reminderTime = None\<rparr>] fresh)
     = (None, (saveTasks [\<lparr>text' = js ''a'', reminderTime = None\<rparr>] fresh)
                \<lparr>out := out (saveTasks [\<lparr>text' = js ''a'', reminderTime = None\<rparr>] fresh)
                          @ [js ''Invalid task index!'']\<rparr>)"
proof -
  have h: "(2::int) < 1 \<or> int (length [\<lparr>text' = js ''a'', reminderTime = None\<rparr>]) < 2"
    by simp
  show ?thesis
    using removeTask_out_of_range[OF readTasks_saved_one h] readTasks_saved_one h
    by blast
qed

text \<open>
  C4: on a store of \<open>n\<close> tasks, \<open>remove i\<close> with \<open>1 \<le> i \<le> n\<close> ends without an
  exception; the store then holds the tasks without the one at position \<open>i\<close>; exactly
  one line is printed, which names the text of the removed task; and a \<open>list\<close> after
  it prints \<open>No tasks available.\<close> when the removed task was the only one, and
  otherwise the header and \<open>n - 1\<close> lines: the line with the number \<open>j + 1\<close> is
  that number, a dot, a space, and the text and the reminder of the task that was
  at position \<open>j + 1\<close> when that is before \<open>i\<close>, and of the task that was at position
  \<open>j + 2\<close> otherwise, so that every task after position \<open>i\<close> has its number
  lowered by one.
\<close>

theorem removeTask_in_range:
  assumes "readTasks w = Inr ts" and "1 \<le> i" and "i \<le> int (length ts)"
  shows "fst (removeTask (Num i) w) = None \<and>
         readTasks (snd (removeTask (Num i) w))
           = Inr (take (nat i - 1) ts @ drop (nat i) ts) \<and>
         out (snd (removeTask (Num i) w))
           = out w @ [[0xD83D, 0xDDD1, 0xFE0F] @ js '' Task '' @ [0x22] @
                      text' (ts ! (nat i - 1)) @ [0x22] @ js '' removed!''] \<and>
         fst (listTasks e (snd (removeTask (Num i) w))) = None \<and>
         out (snd (listTasks e (snd (removeTask (Num i) w))))
           = out (snd (removeTask (Num i) w)) @
             (if length ts = 1 then [js ''No tasks available.'']
              else ([0xD83D, 0xDCCB] @ js '' Your tasks:'') #
                   map (\<lambda>j. Number_toString (j + 1) @ js ''. '' @
                             text' (ts ! (if j < nat i - 1 then j else j + 1)) @
                             (case reminderTime (ts ! (if j < nat i - 1 then j else j + 1)) of
                                None \<Rightarrow> []
                              | Some rt \<Rightarrow>
                                  if rt = [] then []
                                  else js '' (Reminder: '' @ toLocaleString e (newDate e rt) @
                                       js '')''))
                       [0..<length ts - 1])"
proof -
  let ?k = "nat i - 1"
  let ?rest = "take ?k ts @ drop (nat i) ts"
  let ?msg = "[0xD83D, 0xDDD1, 0xFE0F] @ js '' Task '' @ [0x22] @ text' (ts ! ?k) @ [0x22] @
              js '' removed!''"
  let ?old = "\<lambda>j. ts ! (if j < ?k then j else j + 1)"
  let ?line = "\<lambda>j. Number_toString (j + 1) @ js ''. '' @ text' (?old j) @
                  (case reminderTime (?old j) of
                     None \<Rightarrow> []
                   | Some rt \<Rightarrow>
                       if rt = [] then []
                       else js '' (Reminder: '' @ toLocaleString e (newDate e rt) @ js '')'')"
  have suc: "Suc ?k = nat i" and klt: "?k < length ts"
    using assms(2,3) by auto
  have rm: "removeTask (Num i) w = (None, console_log ?msg (saveTasks ?rest w))"
    using assms splice_one[OF assms(2,3)] by (simp add: removeTask_def suc)
  have rd: "readTasks (snd (removeTask (Num i) w)) = Inr ?rest"
    unfolding rm by (simp add: readTasks_after_save_log)
  have len: "length ?rest = length ts - 1"
    using klt suc by simp
  have empty: "?rest = [] \<longleftrightarrow> length ts = 1"
  proof -
    have "?rest = [] \<longleftrightarrow> length ?rest = 0" by blast
    also have "\<dots> \<longleftrightarrow> length ts = 1" unfolding len using klt by linarith
    finally show ?thesis .
  qed
  have lines: "taskLines e 0 ?rest = map ?line [0..<length ts - 1]"
  proof -
    have "taskLines e 0 ?rest = map (\<lambda>j. taskLine e (0 + j) (?rest ! j)) [0..<length ?rest]"
      by (rule taskLines_map)
    also have "\<dots> = map ?line [0..<length ts - 1]"
    proof (rule map_cong)
      show "[0..<length ?rest] = [0..<length ts - 1]"
        using len by simp
    next
      fix j
      assume "j \<in> set [0..<length ts - 1]"
      then have j: "j < length ts - 1" by simp
      have "?rest ! j = ?old j"
        using nth_without[OF klt j] suc by simp
      then show "taskLine e (0 + j) (?rest ! j) = ?line j"
        by (simp add: taskLine_def)
    qed
    finally show ?thesis .
  qed
  have lst: "listTasks e (snd (removeTask (Num i) w)) =
      (None, if ?rest = [] then console_log (js ''No tasks available.'') (snd (removeTask (Num i) w))
             else printTasks e 0 ?rest
                    (console_log ([0xD83D, 0xDCCB] @ js '' Your tasks:'') (snd (removeTask (Num i) w))))"
    by (rule listTasks_ok[OF rd])
  have outl: "out (snd (listTasks e (snd (removeTask (Num i) w))))
           = out (snd (removeTask (Num i) w)) @
             (if length ts = 1 then [js ''No tasks available.'']
              else ([0xD83D, 0xDCCB] @ js '' Your tasks:'') # map ?line [0..<length ts - 1])"
    unfolding lst using empty lines by simp
  have "fst (listTasks e (snd (removeTask (Num i) w))) = None"
    unfolding lst by simp
  moreover have "fst (removeTask (Num i) w) = None"
    unfolding rm by simp
  moreover have "out (snd (removeTask (Num i) w)) = out w @ [?msg]"
    unfolding rm by simp
  ultimately show ?thesis
    using rd outl by blast
qed

theorem removeTask_in_range_witness:
  "readTasks (saveTasks [\<lparr>text' = js ''a'', reminderTime = None\<rparr>,
                         \<lparr>text' = js ''b'', reminderTime = None\<rparr>,
                         \<lparr>text' = js ''c'', reminderTime = None\<rparr>] fresh)
     = Inr [\<lparr>text' = js ''a'', reminderTime = None\<rparr>, \<lparr>text' = js ''b'', reminderTime = None\<rparr>,
            \<lparr>text' = js ''c'', reminderTime = None\<rparr>] \<and>
   (1::int) \<le> 2 \<and>
   (2::int) \<le> int (length [\<lparr>text' = js ''a'', reminderTime = None\<rparr>,
                             \<lparr>text' = js ''b'', reminderTime = None\<rparr>,
                             \<lparr>text' = js ''c'', reminderTime = None\<rparr>]) \<and>
   readTasks (snd (removeTask (Num 2)
     (saveTasks [\<lparr>text' = js ''a'', reminderTime = None\<rparr>,
                 \<lparr>text' = js ''b'', reminderTime = None\<rparr>,
                 \<lparr>text' = js ''c'', reminderTime = None\<rparr>] fresh)))
     = Inr [\<lparr>text' = js ''a'', reminderTime = None\<rparr>, \<lparr>text' = js ''c'', reminderTime = None\<rparr>] \<and>
   out (snd (listTasks no_dates (snd (removeTask (Num 2)
     (saveTasks [\<lparr>text' = js ''a'', reminderTime = None\<rparr>,
                 \<lparr>text' = js ''b'', reminderTime = None\<rparr>,
                 \<lparr>text' = js ''c'', reminderTime = None\<rparr>] fresh)))))
     = [[0xD83D, 0xDDD1, 0xFE0F] @ js '' Task '' @ [0x22] @ js ''b'' @ [0x22] @ js '' removed!'',
        [0xD83D, 0xDCCB] @ js '' Your tasks:'',
        js ''1. a'',
        js ''2. c'']"
proof -
  let ?ts = "[\<lparr>text' = js ''a'', reminderTime = None\<rparr>, \<lparr>text' = js ''b'', reminderTime = None\<rparr>,
              \<lparr>text' = js ''c'', reminderTime = None\<rparr>]"
  have h1: "(1::int) \<le> 2" by simp
  have h2: "(2::int) \<le> int (length ?ts)" by simp
  have o: "out fresh = []" by (simp add: fresh_def)
  have k: "nat 2 - 1 = Suc 0" "nat 2 = Suc (Suc 0)" by simp_all
  have n: "Number_toString (Suc 0) = js ''1''" "Number_toString (Suc (Suc 0)) = js ''2''"
    by (simp_all add: Number_toString.simps js_def)
  have c: "js ''1'' @ js ''. '' @ js ''a'' = js ''1. a''" "js ''2'' @ js ''. '' @ js ''c'' = js ''2. c''"
    by (simp_all add: js_def)
  show ?thesis
    using removeTask_in_range[OF read_after_save h1 h2, of fresh no_dates]
      read_after_save[of ?ts fresh] o
    by (simp add: k n c)
qed

subsection \<open>An absent file\<close>

text \<open>
  C5: when the file does not exist, \<open>readTasks\<close> returns the empty array and no
  error, which is also what it returns from a file in which the empty array was
  saved.
\<close>

theorem readTasks_absent_file:
  assumes "tasksFile w = None"
  shows "readTasks w = Inr [] \<and> readTasks (saveTasks [] w) = readTasks w"
proof -
  have "readTasks w = Inr []"
    using assms by (simp add: readTasks_def)
  then show ?thesis
    by (simp add: read_after_save)
qed

theorem readTasks_absent_file_witness:
  "tasksFile fresh = None \<and> readTasks fresh = Inr [] \<and>
   readTasks (saveTasks [] fresh) = readTasks fresh"
proof -
  have h: "tasksFile fresh = None" by (simp add: fresh_def)
  show ?thesis using readTasks_absent_file[OF h] h by blast
qed

subsection \<open>Reminders\<close>

text \<open>
  C6: \<open>parseReminder\<close> returns nothing for an absent or empty input; otherwise the
  ISO string of the date that \<open>chrono.parseDate\<close> finds; otherwise, when that finds
  none, the ISO string of \<open>new Date(input)\<close> when it is a valid date; and nothing when
  both fail.
\<close>

theorem parseReminder_strategies:
  "(\<not> truthy input \<longrightarrow> fst (parseReminder e input w) = None) \<and>
   (\<forall>s d. input = Some s \<and> s \<noteq> [] \<and> chrono_parseDate e s = Some d \<longrightarrow>
      fst (parseReminder e input w) = Some (toISOString e d)) \<and>
   (\<forall>s d. input = Some s \<and> s \<noteq> [] \<and> chrono_parseDate e s = None \<and> newDate e s = Some d \<longrightarrow>
      fst (parseReminder e input w) = Some (toISOString e d)) \<and>
   (\<forall>s. input = Some s \<and> chrono_parseDate e s = None \<and> newDate e s = None \<longrightarrow>
      fst (parseReminder e input w) = None)"
  by (cases input) (auto simp: parseReminder_def)

theorem parseReminder_strategies_witness:
  "fst (parseReminder epoch_only (Some (js ''1970-01-01T00:00:00.000Z'')) fresh)
     = Some (js ''1970-01-01T00:00:00.000Z'') \<and>
   fst (parseReminder epoch_only (Some (js ''soon'')) fresh) = None \<and>
   fst (parseReminder epoch_only (Some []) fresh) = None \<and>
   fst (parseReminder epoch_only None fresh) = None"
proof -
  have a: "js ''1970-01-01T00:00:00.000Z'' \<noteq> []" "js ''soon'' \<noteq> js ''1970-01-01T00:00:00.000Z''"
    by (simp_all add: js_def)
  have "fst (parseReminder epoch_only (Some (js ''1970-01-01T00:00:00.000Z'')) fresh)
     = Some (js ''1970-01-01T00:00:00.000Z'')"
    using parseReminder_strategies[of "Some (js ''1970-01-01T00:00:00.000Z'')" epoch_only fresh] a
    by (simp add: epoch_only_def)
  moreover have "fst (parseReminder epoch_only (Some (js ''soon'')) fresh) = None"
    using parseReminder_strategies[of "Some (js ''soon'')" epoch_only fresh] a
    by (simp add: epoch_only_def)
  moreover have "fst (parseReminder epoch_only (Some []) fresh) = None"
    using parseReminder_strategies[of "Some []" epoch_only fresh] by simp
  moreover have "fst (parseReminder epoch_only None fresh) = None"
    using parseReminder_strategies[of None epoch_only fresh] by simp
  ultimately show ?thesis by simp
qed

text \<open>
  C7 does not hold for the empty reminder string: \<open>add a\<close> with the reminder text
  \<open>""\<close> prints the confirmation line only, and no warning.
\<close>

theorem addTask_empty_reminder_counterexample:
  "out (snd (addTask no_dates (js ''a'') (Some []) fresh))
     = [[0x2705] @ js '' Task '' @ [0x22] @ js ''a'' @ [0x22] @ js '' added!''] \<and>
   ([0x26A0, 0xFE0F] @ js '' Could not parse reminder time: '' @ [0x22] @ [] @ [0x22])
     \<notin> set (out (snd (addTask no_dates (js ''a'') (Some []) fresh)))"
  by (simp add: addTask_def parseReminder_def readTasks_def fresh_def Let_def)

text \<open>
  C7, amended: an \<open>add\<close> whose reminder text is not empty and is recognised by
  neither strategy still adds and saves the task, without \<open>reminderTime\<close> and without
  a timer, and prints a warning line that quotes the reminder text, then the
  confirmation; an \<open>add\<close> whose reminder text is absent or empty adds and saves the
  task without \<open>reminderTime\<close> too, and prints the confirmation only.
\<close>

theorem addTask_without_reminder:
  assumes "readTasks w = Inr ts"
  shows "(\<forall>s. r = Some s \<and> s \<noteq> [] \<and> chrono_parseDate e s = None \<and> newDate e s = None \<longrightarrow>
            fst (addTask e T r w) = None \<and>
            readTasks (snd (addTask e T r w)) = Inr (ts @ [\<lparr>text' = T, reminderTime = None\<rparr>]) \<and>
            timers (snd (addTask e T r w)) = timers w \<and>
            out (snd (addTask e T r w)) =
              out w @
              [[0x26A0, 0xFE0F] @ js '' Could not parse reminder time: '' @ [0x22] @ s @ [0x22],
               [0x2705] @ js '' Task '' @ [0x22] @ T @ [0x22] @ js '' added!'']) \<and>
         (\<not> truthy r \<longrightarrow>
            fst (addTask e T r w) = None \<and>
            readTasks (snd (addTask e T r w)) = Inr (ts @ [\<lparr>text' = T, reminderTime = None\<rparr>]) \<and>
            timers (snd (addTask e T r w)) = timers w \<and>
            out (snd (addTask e T r w)) =
              out w @ [[0x2705] @ js '' Task '' @ [0x22] @ T @ [0x22] @ js '' added!''])"
proof (cases r)
  case None
  then show ?thesis using assms
    by (simp add: addTask_def parseReminder_def Let_def readTasks_after_save_log)
next
  case (Some s)
  show ?thesis
  proof (cases "s = []")
    case True
    then show ?thesis using assms Some
      by (simp add: addTask_def parseReminder_def Let_def readTasks_after_save_log)
  next
    case False
    have rd: "readTasks (console_log x w) = Inr ts" for x
      using assms readTasks_cong[of "console_log x w" w] by simp
    show ?thesis using assms Some False
      by (auto simp: addTask_def parseReminder_def Let_def readTasks_after_save_log rd)
  qed
qed

theorem addTask_without_reminder_witness:
  "readTasks fresh = Inr [] \<and>
   out (snd (addTask no_dates (js ''a'') (Some (js ''soon'')) fresh)) =
     [[0x26A0, 0xFE0F] @ js '' Could not parse reminder time: '' @ [0x22] @ js ''soon'' @ [0x22],
      [0x2705] @ js '' Task '' @ [0x22] @ js ''a'' @ [0x22] @ js '' added!''] \<and>
   readTasks (snd (addTask no_dates (js ''a'') (Some (js ''soon'')) fresh))
     = Inr [\<lparr>text' = js ''a'', reminderTime = None\<rparr>] \<and>
   readTasks (snd (addTask no_dates (js ''a'') None fresh))
     = Inr [\<lparr>text' = js ''a'', reminderTime = None\<rparr>] \<and>
   out (snd (addTask no_dates (js ''a'') None fresh)) =
     [[0x2705] @ js '' Task '' @ [0x22] @ js ''a'' @ [0x22] @ js '' added!'']"
proof -
  have a: "js ''soon'' \<noteq> []" by (simp add: js_def)
  have o: "out fresh = []" by (simp add: fresh_def)
  have n: "chrono_parseDate no_dates (js ''soon'') = None" "newDate no_dates (js ''soon'') = None"
    by (simp_all add: no_dates_def)
  show ?thesis
    using addTask_without_reminder[OF readTasks_fresh, of "Some (js ''soon'')" no_dates "js ''a''"]
      addTask_without_reminder[OF readTasks_fresh, of None no_dates "js ''a''"]
      readTasks_fresh a o n
    by simp
qed

text \<open>
  C8: for a task whose reminder time is not after the current time (the delay is
  not positive), \<open>scheduleReminder\<close> sets no timer. So an \<open>add\<close> whose reminder text
  resolves to such a time stores the task with its \<open>reminderTime\<close> and sets no timer,
  and \<open>rescheduleAllReminders\<close> on a store in which no reminder is in the future
  sets none either.
\<close>

theorem scheduleReminder_past:
  "(\<forall>t::task. \<forall>rt d. reminderTime t = Some rt \<and> newDate e rt = Some d \<and> d - Date_now e \<le> 0 \<longrightarrow>
      scheduleReminder e t w = w) \<and>
   (\<forall>ts rt d. readTasks w = Inr ts \<and> fst (parseReminder e r w) = Some rt \<and> rt \<noteq> [] \<and>
        newDate e rt = Some d \<and> d - Date_now e \<le> 0 \<longrightarrow>
      readTasks (snd (addTask e T r w)) = Inr (ts @ [\<lparr>text' = T, reminderTime = Some rt\<rparr>]) \<and>
      timers (snd (addTask e T r w)) = timers w) \<and>
   (\<forall>ts. readTasks w = Inr ts \<and>
        (\<forall>t\<in>set ts. \<forall>rt d. reminderTime t = Some rt \<and> newDate e rt = Some d \<longrightarrow>
           d - Date_now e \<le> 0) \<longrightarrow>
      rescheduleAllReminders e w = (None, w))"
proof (intro conjI allI impI)
  fix t :: task and rt d
  assume "reminderTime t = Some rt \<and> newDate e rt = Some d \<and> d - Date_now e \<le> 0"
  then show "scheduleReminder e t w = w"
    by (simp add: scheduleReminder_def)
next
  fix ts rt d
  assume a: "readTasks w = Inr ts \<and> fst (parseReminder e r w) = Some rt \<and> rt \<noteq> [] \<and>
        newDate e rt = Some d \<and> d - Date_now e \<le> 0"
  then show "readTasks (snd (addTask e T r w)) = Inr (ts @ [\<lparr>text' = T, reminderTime = Some rt\<rparr>])"
    using addTask_ok(2)[of w ts e T r] by simp
  have "scheduleReminder e \<lparr>text' = T, reminderTime = Some rt\<rparr> w1 = w1" for w1
    using a by (simp add: scheduleReminder_def)
  then show "timers (snd (addTask e T r w)) = timers w"
    using a parseReminder_fields(2)[of e r w]
    by (cases "parseReminder e r w") (simp add: addTask_def Let_def)
next
  fix ts
  assume "readTasks w = Inr ts \<and>
        (\<forall>t\<in>set ts. \<forall>rt d. reminderTime t = Some rt \<and> newDate e rt = Some d \<longrightarrow>
           d - Date_now e \<le> 0)"
  then have "readTasks w = Inr ts" and "fold (scheduleReminder e) ts w = w"
    using fold_schedule_no_timer[of ts e w] by blast+
  then show "rescheduleAllReminders e w = (None, w)"
    by (simp add: rescheduleAllReminders_def)
qed

theorem scheduleReminder_past_witness:
  "scheduleReminder epoch_only
     \<lparr>text' = js ''a'', reminderTime = Some (js ''1970-01-01T00:00:00.000Z'')\<rparr> fresh = fresh \<and>
   readTasks (snd (addTask epoch_only (js ''a'') (Some (js ''1970-01-01T00:00:00.000Z'')) fresh))
     = Inr [\<lparr>text' = js ''a'', reminderTime = Some (js ''1970-01-01T00:00:00.000Z'')\<rparr>] \<and>
   timers (snd (addTask epoch_only (js ''a'') (Some (js ''1970-01-01T00:00:00.000Z'')) fresh)) = [] \<and>
   rescheduleAllReminders epoch_only
     (saveTasks [\<lparr>text' = js ''a'', reminderTime = Some (js ''1970-01-01T00:00:00.000Z'')\<rparr>] fresh)
     = (None, saveTasks [\<lparr>text' = js ''a'', reminderTime = Some (js ''1970-01-01T00:00:00.000Z'')\<rparr>] fresh)"
proof -
  let ?z = "js ''1970-01-01T00:00:00.000Z''"
  let ?t = "\<lparr>text' = js ''a'', reminderTime = Some ?z\<rparr>"
  have nz: "?z \<noteq> []" by (simp add: js_def)
  have nd: "newDate epoch_only ?z = Some 0" "Date_now epoch_only = 1000"
    by (simp_all add: epoch_only_def)
  have pr: "fst (parseReminder epoch_only (Some ?z) fresh) = Some ?z"
    using nz by (simp add: parseReminder_def epoch_only_def)
  have tm: "timers fresh = []" by (simp add: fresh_def)
  have past: "\<forall>t\<in>set [?t]. \<forall>rt d. reminderTime t = Some rt \<and> newDate epoch_only rt = Some d \<longrightarrow>
           d - Date_now epoch_only \<le> 0"
    by (simp add: epoch_only_def)
  have 1: "scheduleReminder epoch_only ?t fresh = fresh"
    using scheduleReminder_past[of epoch_only fresh None "[]"] nd by simp
  have 2: "readTasks (snd (addTask epoch_only (js ''a'') (Some ?z) fresh)) = Inr [?t] \<and>
           timers (snd (addTask epoch_only (js ''a'') (Some ?z) fresh)) = []"
    using scheduleReminder_past[of epoch_only fresh "Some ?z" "js ''a''"] nd nz pr tm readTasks_fresh
    by simp
  have 3: "rescheduleAllReminders epoch_only (saveTasks [?t] fresh) = (None, saveTasks [?t] fresh)"
    using scheduleReminder_past[of epoch_only "saveTasks [?t] fresh" None "[]"] past
      read_after_save[of "[?t]" fresh]
    by blast
  show ?thesis using 1 2 3 by simp
qed

subsection \<open>Listing\<close>

text \<open>
  C9: \<open>list\<close> never writes: after \<open>listTasks\<close> the file has the content it had,
  no save was recorded, and \<open>readTasks\<close> returns what it returned before.
\<close>

theorem listTasks_does_not_write:
  "tasksFile (snd (listTasks e w)) = tasksFile w \<and>
   saved (snd (listTasks e w)) = saved w \<and>
   readTasks (snd (listTasks e w)) = readTasks w"
proof -
  have "tasksFile (snd (listTasks e w)) = tasksFile w"
    by (simp add: listTasks_def split: sum.splits)
  moreover have "saved (snd (listTasks e w)) = saved w"
    by (simp add: listTasks_def split: sum.splits)
  ultimately show ?thesis
    using readTasks_cong by blast
qed

theorem listTasks_does_not_write_witness:
  "tasksFile (snd (listTasks no_dates (saveTasks [\<lparr>text' = js ''a'', reminderTime = None\<rparr>] fresh)))
     = tasksFile (saveTasks [\<lparr>text' = js ''a'', reminderTime = None\<rparr>] fresh) \<and>
   readTasks (snd (listTasks no_dates (saveTasks [\<lparr>text' = js ''a'', reminderTime = None\<rparr>] fresh)))
     = Inr [\<lparr>text' = js ''a'', reminderTime = None\<rparr>]"
  using listTasks_does_not_write[of no_dates "saveTasks [\<lparr>text' = js ''a'', reminderTime = None\<rparr>] fresh"]
  by (simp add: read_after_save)

subsection \<open>An index that is not a number\<close>

text \<open>
  C10: when the argument of \<open>remove\<close> is not empty and \<open>parseInt\<close> makes \<open>NaN\<close> of it,
  the command line calls \<open>removeTask\<close> with \<open>NaN\<close>; the bounds check lets it pass,
  and on a store that is not empty the first task is removed and the shorter array
  is saved: the line printed names the removed task, and it is not
  \<open>Invalid task index!\<close>.
\<close>

theorem remove_NaN_removes_first:
  assumes "parseInt a = NaN" and "a \<noteq> []" and "readTasks w = Inr (t # ts)"
  shows "cli e [js ''remove'', a] w = removeTask NaN w \<and>
         fst (removeTask NaN w) = None \<and>
         readTasks (snd (removeTask NaN w)) = Inr ts \<and>
         saved (snd (removeTask NaN w)) = Some ts \<and>
         out (snd (removeTask NaN w)) =
           out w @ [[0xD83D, 0xDDD1, 0xFE0F] @ js '' Task '' @ [0x22] @ text' t @ [0x22] @
                    js '' removed!'']"
proof -
  have c: "js ''remove'' \<noteq> js ''add''" "js ''remove'' \<noteq> js ''list''"
    by (simp_all add: js_def)
  have "cli e [js ''remove'', a] w = removeTask NaN w"
    using assms(1,2) c by (simp add: cli_def at_def Let_def)
  moreover have "removeTask NaN w =
      (None, console_log ([0xD83D, 0xDDD1, 0xFE0F] @ js '' Task '' @ [0x22] @ text' t @ [0x22] @
                          js '' removed!'') (saveTasks ts w))"
    using assms(3) by (simp add: removeTask_def splice_NaN)
  ultimately show ?thesis
    by (simp add: readTasks_after_save_log)
qed

theorem remove_NaN_removes_first_witness:
  "parseInt (js ''abc'') = NaN \<and> js ''abc'' \<noteq> [] \<and>
   readTasks (saveTasks [\<lparr>text' = js ''a'', reminderTime = None\<rparr>,
                         \<lparr>text' = js ''b'', reminderTime = None\<rparr>] fresh)
     = Inr [\<lparr>text' = js ''a'', reminderTime = None\<rparr>, \<lparr>text' = js ''b'', reminderTime = None\<rparr>] \<and>
   readTasks (snd (cli no_dates [js ''remove'', js ''abc'']
     (saveTasks [\<lparr>text' = js ''a'', reminderTime = None\<rparr>,
                 \<lparr>text' = js ''b'', reminderTime = None\<rparr>] fresh)))
     = Inr [\<lparr>text' = js ''b'', reminderTime = None\<rparr>] \<and>
   out (snd (cli no_dates [js ''remove'', js ''abc'']
     (saveTasks [\<lparr>text' = js ''a'', reminderTime = None\<rparr>,
                 \<lparr>text' = js ''b'', reminderTime = None\<rparr>] fresh)))
     = [[0xD83D, 0xDDD1, 0xFE0F] @ js '' Task '' @ [0x22] @ js ''a'' @ [0x22] @ js '' removed!'']"
proof -
  have p: "parseInt (js ''abc'') = NaN"
    by (simp add: parseInt_def js_def isStrWhiteSpace_def isDigit_def)
  have n: "js ''abc'' \<noteq> []" by (simp add: js_def)
  have o: "out fresh = []" by (simp add: fresh_def)
  show ?thesis
    using remove_NaN_removes_first[OF p n read_after_save, of no_dates
        "\<lparr>text' = js ''a'', reminderTime = None\<rparr>" "[\<lparr>text' = js ''b'', reminderTime = None\<rparr>]" fresh]
      p n o read_after_save[of "[\<lparr>text' = js ''a'', reminderTime = None\<rparr>,
                 \<lparr>text' = js ''b'', reminderTime = None\<rparr>]" fresh]
    by simp
qed

end
